theory Spec2Isabelle
  imports Main "HOL-Library.Word"
begin

section \<open>Errors, results and panics\<close>

text \<open>
  Go errors are values. An API status error carries a reason, which is what
  \<^verbatim>\<open>apierrors.IsNotFound\<close> inspects; every other error is a plain message.
\<close>

datatype StatusReason = StatusReasonNotFound | StatusReasonConflict | StatusReasonUnknown

datatype error = StatusError StatusReason string | PlainError string

fun Error_msg :: "error \<Rightarrow> string" where
  "Error_msg (StatusError r m) = m"
| "Error_msg (PlainError m) = m"

fun IsNotFound :: "error \<Rightarrow> bool" where
  "IsNotFound (StatusError r m) = (r = StatusReasonNotFound)"
| "IsNotFound (PlainError m) = False"

text \<open>
  \<^verbatim>\<open>fmt.Errorf(prefix + "%v", err)\<close>, \<^verbatim>\<open>errors.Errorf(prefix + "%v", err)\<close>: a new
  plain error whose message is the prefix followed by the message of \<open>err\<close>.
\<close>

definition Errorf_v :: "string \<Rightarrow> error \<Rightarrow> error" where
  "Errorf_v prefix err = PlainError (prefix @ Error_msg err)"

text \<open>\<^verbatim>\<open>fmt.Errorf(prefix + "%w", err)\<close>, where \<open>err\<close> may be nil.\<close>

definition Errorf_w :: "string \<Rightarrow> error option \<Rightarrow> error" where
  "Errorf_w prefix err =
     PlainError (prefix @ (case err of None \<Rightarrow> ''%!w(<nil>)'' | Some e \<Rightarrow> Error_msg e))"

text \<open>\<^verbatim>\<open>errors.Wrap(err, msg)\<close>: the message is \<open>msg: err\<close>.\<close>

definition errors_Wrap :: "error \<Rightarrow> string \<Rightarrow> error" where
  "errors_Wrap err m = PlainError (m @ '': '' @ Error_msg err)"

text \<open>\<^verbatim>\<open>ctrl.Result\<close>; \<^verbatim>\<open>ctrl.Result{}\<close> is its zero value.\<close>

record Result =
  Requeue :: bool
  RequeueAfter :: int

definition Result_zero :: Result where
  "Result_zero = \<lparr>Requeue = False, RequeueAfter = 0\<rparr>"

text \<open>The run-time panics the modelled code could raise.\<close>

datatype panic = NilMapAssignment | NilPointerDereference

section \<open>The machine set and its provider configuration\<close>

text \<open>
  \<^verbatim>\<open>metav1.Time\<close> as nanoseconds since the zero instant of Go's \<^verbatim>\<open>time.Time\<close>.
  \<^verbatim>\<open>IsZero\<close> is defined on the pointer: a nil pointer is zero too.
\<close>

datatype Time = Time int

fun Time_IsZero :: "Time option \<Rightarrow> bool" where
  "Time_IsZero None = True"
| "Time_IsZero (Some (Time n)) = (n = 0)"

record ObjectMeta =
  Name :: string
  Namespace :: string
  ResourceVersion :: string
  DeletionTimestamp :: "Time option"
  Annotations :: "(string \<rightharpoonup> string) option"

text \<open>
  \<^verbatim>\<open>ProviderSpec{Value *runtime.RawExtension}\<close>: the raw bytes of the encoded
  provider configuration, or a nil pointer.
\<close>

record ProviderSpec =
  Value :: "8 word list option"

text \<open>
  Of the machine set, the object metadata and
  \<^verbatim>\<open>Spec.Template.Spec.ProviderSpec\<close> are what the reconciler reads.
\<close>

record MachineSet =
  Meta :: ObjectMeta
  Spec_Template_Spec_ProviderSpec :: ProviderSpec

record Filter =
  Filter_Name :: string
  Filter_Values :: "string list"

record AWSResourceReference =
  Filters :: "Filter list"

record Placement =
  Region :: string
  AvailabilityZone :: string

record TagSpecification =
  Tag_Name :: string
  Tag_Value :: string

record AWSMachineProviderConfig =
  AMI :: AWSResourceReference
  CredentialsSecret :: "string option"
  InstanceType :: string
  Placement :: Placement
  Subnet :: AWSResourceReference
  Tags :: "TagSpecification list"
  SecurityGroups :: "AWSResourceReference list"
  PublicIP :: "bool option"
  UserDataSecret :: "string option"

text \<open>
  Modelled from the spec: the declaration of the entries of the table
  \<^verbatim>\<open>InstanceTypes\<close> is missing from the sources. The reconciler reads the field
  \<^verbatim>\<open>VCPU\<close> and passes it to \<^verbatim>\<open>strconv.FormatInt\<close>, so it is an \<^verbatim>\<open>int64\<close>; the spec
  names a capability descriptor of vCPU count, memory size and GPU count, and has
  the table map an identifier to a descriptor value (not to a pointer).
\<close>

record InstanceTypeInfo =
  VCPU :: "64 word"
  MemoryMb :: "64 word"
  GPU :: "64 word"

definition InstanceTypeInfo_zero :: InstanceTypeInfo where
  "InstanceTypeInfo_zero = \<lparr>VCPU = 0, MemoryMb = 0, GPU = 0\<rparr>"

text \<open>Indexing a Go map: a missing key gives the zero value of the element type.\<close>

definition map_index :: "(string \<rightharpoonup> InstanceTypeInfo) \<Rightarrow> string \<Rightarrow> InstanceTypeInfo" where
  "map_index m k = (case m k of None \<Rightarrow> InstanceTypeInfo_zero | Some v \<Rightarrow> v)"

text \<open>Assigning into a Go map: a nil map panics.\<close>

definition map_store ::
  "(string \<rightharpoonup> string) option \<Rightarrow> string \<Rightarrow> string \<Rightarrow> panic + (string \<rightharpoonup> string) option" where
  "map_store m k v =
     (case m of None \<Rightarrow> Inl NilMapAssignment | Some f \<Rightarrow> Inr (Some (f(k \<mapsto> v))))"

subsection \<open>Decimal rendering\<close>

fun FormatUint :: "nat \<Rightarrow> string" where
  "FormatUint n =
     (if n < 10 then [''0123456789'' ! n]
      else FormatUint (n div 10) @ [''0123456789'' ! (n mod 10)])"

declare FormatUint.simps [simp del]

text \<open>\<^verbatim>\<open>strconv.FormatInt(i, 10)\<close> on an \<^verbatim>\<open>int64\<close>.\<close>

definition FormatInt_10 :: "64 word \<Rightarrow> string" where
  "FormatInt_10 w =
     (let i = sint w
      in if i < 0 then ''-'' @ FormatUint (nat (- i)) else FormatUint (nat i))"

section \<open>The machine-set reconciler\<close>

record NamespacedName =
  req_Namespace :: string
  req_Name :: string

record Request =
  NamespacedName :: NamespacedName

text \<open>
  The client is an external collaborator: its answers are parameters of the model.
  \<open>Get\<close> answers a key with an error or the stored object; \<open>Patch\<close> answers the
  modified object and the base of the merge patch with an error or nil.
\<close>

record Client =
  Get :: "NamespacedName \<Rightarrow> error + MachineSet"
  Patch :: "MachineSet \<Rightarrow> MachineSet \<Rightarrow> error option"

text \<open>
  The codec of \<^verbatim>\<open>providerconfigv1\<close> is not among the sources either:
  \<^verbatim>\<open>NewCodec()\<close> is an error or a codec, and a codec is its
  \<^verbatim>\<open>DecodeProviderSpec\<close>.
\<close>

type_synonym codec = "ProviderSpec \<Rightarrow> error + AWSMachineProviderConfig"

text \<open>Every call that leaves the reconciler is recorded, in order.\<close>

datatype event =
    GetCall NamespacedName
  | NewCodecCall
  | DecodeProviderSpecCall ProviderSpec
  | PatchCall MachineSet MachineSet

datatype outcome = Return Result "error option" | Panicked panic

text \<open>
  A run of \<open>Reconcile\<close>: what it returned, the calls it made, and the in-memory
  \<^verbatim>\<open>machineSet\<close> as the reconciler's own assignments leave it (\<open>None\<close> when
  the fetch failed). What a patch call writes back into the object is the client's
  business and is not part of the model.
\<close>

record run =
  outcome :: outcome
  calls :: "event list"
  machineSet :: "MachineSet option"

definition getproviderConfig ::
  "(error + codec) \<Rightarrow> MachineSet \<Rightarrow> (error + AWSMachineProviderConfig) \<times> event list" where
  "getproviderConfig NewCodec ms =
     (case NewCodec of
        Inl err \<Rightarrow> (Inl (Errorf_v ''failed to create codec: '' err), [NewCodecCall])
      | Inr codec \<Rightarrow>
          (case codec (Spec_Template_Spec_ProviderSpec ms) of
             Inl err \<Rightarrow>
               (Inl (Errorf_v ''failed to decode machineSet provider config: '' err),
                [NewCodecCall, DecodeProviderSpecCall (Spec_Template_Spec_ProviderSpec ms)])
           | Inr providerConfig \<Rightarrow>
               (Inr providerConfig,
                [NewCodecCall, DecodeProviderSpecCall (Spec_Template_Spec_ProviderSpec ms)])))"

text \<open>Lines 73 to 75: allocate the annotation map when it is nil.\<close>

definition ensure_Annotations :: "MachineSet \<Rightarrow> MachineSet" where
  "ensure_Annotations ms =
     (if Annotations (Meta ms) = None
      then ms\<lparr>Meta := (Meta ms)\<lparr>Annotations := Some Map.empty\<rparr>\<rparr>
      else ms)"

text \<open>
  Lines 78 to 80: the three assignments, in order. Each of them formats
  \<^verbatim>\<open>instanceType.VCPU\<close>.
\<close>

definition write_Annotations :: "InstanceTypeInfo \<Rightarrow> MachineSet \<Rightarrow> panic + MachineSet" where
  "write_Annotations instanceType ms =
     (case map_store (Annotations (Meta ms)) ''machine.openshift.io/vCPU''
             (FormatInt_10 (VCPU instanceType)) of
        Inl p \<Rightarrow> Inl p
      | Inr a1 \<Rightarrow>
          (case map_store a1 ''machine.openshift.io/memoryMb''
                  (FormatInt_10 (VCPU instanceType)) of
             Inl p \<Rightarrow> Inl p
           | Inr a2 \<Rightarrow>
               (case map_store a2 ''machine.openshift.io/GPU''
                       (FormatInt_10 (VCPU instanceType)) of
                  Inl p \<Rightarrow> Inl p
                | Inr a3 \<Rightarrow> Inr (ms\<lparr>Meta := (Meta ms)\<lparr>Annotations := a3\<rparr>\<rparr>))))"

definition Reconcile ::
  "Client \<Rightarrow> (error + codec) \<Rightarrow> (string \<rightharpoonup> InstanceTypeInfo) \<Rightarrow> Request \<Rightarrow> run" where
  "Reconcile r NewCodec InstanceTypes req =
     (case Get r (NamespacedName req) of
        Inl err \<Rightarrow>
          (if IsNotFound err
           then \<lparr>outcome = Return Result_zero None,
                 calls = [GetCall (NamespacedName req)], machineSet = None\<rparr>
           else \<lparr>outcome = Return Result_zero (Some err),
                 calls = [GetCall (NamespacedName req)], machineSet = None\<rparr>)
      | Inr ms \<Rightarrow>
          (if \<not> Time_IsZero (DeletionTimestamp (Meta ms))
           then \<lparr>outcome = Return Result_zero None,
                 calls = [GetCall (NamespacedName req)], machineSet = Some ms\<rparr>
           else
             (let originalMachineSetToPatch = ms
              in case getproviderConfig NewCodec ms of
                   (Inl err, evs) \<Rightarrow>
                     \<lparr>outcome = Return Result_zero
                        (Some (Errorf_v ''failed to get providerConfig: '' err)),
                      calls = GetCall (NamespacedName req) # evs, machineSet = Some ms\<rparr>
                 | (Inr providerConfig, evs) \<Rightarrow>
                     (let instanceType = map_index InstanceTypes (InstanceType providerConfig);
                          ms1 = ensure_Annotations ms
                      in case write_Annotations instanceType ms1 of
                           Inl p \<Rightarrow>
                             \<lparr>outcome = Panicked p,
                              calls = GetCall (NamespacedName req) # evs,
                              machineSet = Some ms1\<rparr>
                         | Inr ms2 \<Rightarrow>
                             (case Patch r ms2 originalMachineSetToPatch of
                                Some err \<Rightarrow>
                                  \<lparr>outcome = Return Result_zero
                                     (Some (Errorf_v ''failed to patch machineSet: '' err)),
                                   calls = GetCall (NamespacedName req) # evs
                                     @ [PatchCall ms2 originalMachineSetToPatch],
                                   machineSet = Some ms2\<rparr>
                              | None \<Rightarrow>
                                  \<lparr>outcome = Return Result_zero None,
                                   calls = GetCall (NamespacedName req) # evs
                                     @ [PatchCall ms2 originalMachineSetToPatch],
                                   machineSet = Some ms2\<rparr>)))))"

text \<open>The patch calls of a run: the modified object and the base, in order.\<close>

fun patch_calls :: "event list \<Rightarrow> (MachineSet \<times> MachineSet) list" where
  "patch_calls [] = []"
| "patch_calls (PatchCall obj base # es) = (obj, base) # patch_calls es"
| "patch_calls (e # es) = patch_calls es"

text \<open>
  The three derived keys, and lines 73 to 80 in closed form: the object with its
  annotation map (the empty one when it was nil) updated at the three keys by one
  value. The lemma \<open>write_Annotations_ensure\<close> below shows that this is what the
  allocation followed by the three assignments computes.
\<close>

definition derived_keys :: "string set" where
  "derived_keys =
     {''machine.openshift.io/vCPU'', ''machine.openshift.io/memoryMb'',
      ''machine.openshift.io/GPU''}"

definition annotated :: "string \<Rightarrow> MachineSet \<Rightarrow> MachineSet" where
  "annotated v ms =
     ms\<lparr>Meta := (Meta ms)\<lparr>Annotations :=
       Some ((case Annotations (Meta ms) of None \<Rightarrow> Map.empty | Some f \<Rightarrow> f)
         (''machine.openshift.io/vCPU'' \<mapsto> v,
          ''machine.openshift.io/memoryMb'' \<mapsto> v,
          ''machine.openshift.io/GPU'' \<mapsto> v))\<rparr>\<rparr>"

text \<open>The annotation of an object at a key; a nil map has none.\<close>

definition annotation :: "MachineSet \<Rightarrow> string \<Rightarrow> string option" where
  "annotation ms k = (case Annotations (Meta ms) of None \<Rightarrow> None | Some f \<Rightarrow> f k)"

section \<open>The guest-cluster scope\<close>

text \<open>
  Of \<^verbatim>\<open>clusterv1.Cluster\<close>, the fields the scope reads. Pointers are options.
\<close>

record ClusterNetwork =
  APIServerPort :: "32 word option"

record ClusterSpec =
  ClusterNetwork :: "ClusterNetwork option"

record Cluster =
  Cluster_Name :: string
  Cluster_Namespace :: string
  Cluster_UID :: string
  Spec :: ClusterSpec

text \<open>
  \<^verbatim>\<open>unstructured.Unstructured\<close>: its \<^verbatim>\<open>Object\<close> is a tree of string-keyed maps.
\<close>

datatype uvalue =
    UNull
  | UString string
  | UInt int
  | UBool bool
  | UList "uvalue list"
  | UMap "(string \<times> uvalue) list"

record Unstructured =
  Object :: "(string \<times> uvalue) list"

datatype Logger = Klogr | Logger nat

datatype ClientHandle = ClientHandle nat

datatype Session = Session nat

record ServiceEndpoint =
  ServiceID :: string
  URL :: string
  SigningRegion :: string

text \<open>
  \<^verbatim>\<open>patch.Helper\<close> of cluster-api: it keeps the object as it was when the helper
  was made.
\<close>

record Helper =
  beforeObject :: Unstructured

record GuestClusterScopeParams =
  p_Client :: "ClientHandle option"
  p_Logger :: "Logger option"
  p_Cluster :: "Cluster option"
  p_GuestCluster :: "Unstructured option"
  p_ControllerName :: string
  p_Endpoints :: "ServiceEndpoint list"
  p_Session :: "Session option"

record GuestClusterScope =
  s_Logger :: Logger
  s_client :: "ClientHandle option"
  s_patchHelper :: "Helper option"
  s_Cluster :: "Cluster option"
  s_GuestCluster :: "Unstructured option"
  s_session :: "Session option"
  s_controllerName :: string

text \<open>
  What the constructor calls and the sources do not hold:
  \<^verbatim>\<open>unstructured.NestedString\<close> (value, found, error), the session factory
  \<^verbatim>\<open>sessionForRegion\<close> and \<^verbatim>\<open>patch.NewHelper\<close>. Their answers are parameters.
\<close>

record ScopeDeps =
  NestedString :: "(string \<times> uvalue) list \<Rightarrow> string list \<Rightarrow> string \<times> bool \<times> error option"
  sessionForRegion :: "string \<Rightarrow> ServiceEndpoint list \<Rightarrow> error + Session"
  NewHelper :: "Unstructured \<Rightarrow> ClientHandle option \<Rightarrow> error + Helper"

datatype scope_event =
    SessionForRegionCall string "ServiceEndpoint list"
  | NewHelperCall Unstructured "ClientHandle option"
  | HelperPatchCall Unstructured

definition NewGuestClusterScope ::
  "ScopeDeps \<Rightarrow> GuestClusterScopeParams
     \<Rightarrow> (GuestClusterScope option \<times> error option) \<times> scope_event list" where
  "NewGuestClusterScope deps params =
     (case p_Cluster params of
        None \<Rightarrow>
          ((None, Some (PlainError ''failed to generate new scope from nil Cluster'')), [])
      | Some cluster \<Rightarrow>
          (case p_GuestCluster params of
             None \<Rightarrow>
               ((None, Some (PlainError ''failed to generate new scope from nil GuestCluster'')),
                [])
           | Some guest \<Rightarrow>
               (let logger = (case p_Logger params of None \<Rightarrow> Klogr | Some l \<Rightarrow> l)
                in case NestedString deps (Object guest) [''spec'', ''region''] of
                     (region, found, err) \<Rightarrow>
                       if err \<noteq> None \<or> \<not> found
                       then ((None, Some (Errorf_w ''error getting region: '' err)), [])
                       else
                         (case sessionForRegion deps region (p_Endpoints params) of
                            Inl e \<Rightarrow>
                              ((None, Some (Errorf_v ''failed to create aws session: '' e)),
                               [SessionForRegionCall region (p_Endpoints params)])
                          | Inr session \<Rightarrow>
                              (case NewHelper deps guest (p_Client params) of
                                 Inl e \<Rightarrow>
                                   ((None, Some (errors_Wrap e ''failed to init patch helper'')),
                                    [SessionForRegionCall region (p_Endpoints params),
                                     NewHelperCall guest (p_Client params)])
                               | Inr helper \<Rightarrow>
                                   ((Some \<lparr>s_Logger = logger,
                                           s_client = p_Client params,
                                           s_patchHelper = Some helper,
                                           s_Cluster = Some cluster,
                                           s_GuestCluster = Some guest,
                                           s_session = Some session,
                                           s_controllerName = p_ControllerName params\<rparr>,
                                     None),
                                    [SessionForRegionCall region (p_Endpoints params),
                                     NewHelperCall guest (p_Client params)]))))))"

text \<open>
  \<^verbatim>\<open>PatchObject\<close> returns nil at its first statement; the rest of its body,
  which ends in \<^verbatim>\<open>s.patchHelper.Patch\<close>, is commented out. It makes no call.
\<close>

definition PatchObject :: "GuestClusterScope \<Rightarrow> error option \<times> scope_event list" where
  "PatchObject s = (None, [])"

definition Close :: "GuestClusterScope \<Rightarrow> error option \<times> scope_event list" where
  "Close s = PatchObject s"

text \<open>
  \<^verbatim>\<open>APIServerPort\<close>: the receiver's \<^verbatim>\<open>Cluster\<close> is a pointer the method reads
  through; the two tests of the condition are evaluated left to right.
\<close>

definition GuestClusterScope_APIServerPort :: "GuestClusterScope \<Rightarrow> panic + 32 word" where
  "GuestClusterScope_APIServerPort s =
     (case s_Cluster s of
        None \<Rightarrow> Inl NilPointerDereference
      | Some cluster \<Rightarrow>
          (case ClusterNetwork (Spec cluster) of
             None \<Rightarrow> Inr 6443
           | Some cn \<Rightarrow>
               (case APIServerPort cn of
                  None \<Rightarrow> Inr 6443
                | Some port \<Rightarrow> Inr port)))"

section \<open>Fixtures\<close>

text \<open>
  The instance type of the test fixtures of the repository, \<^verbatim>\<open>m4.xlarge\<close>, with the
  capability entry the specification gives for it.
\<close>

definition m4_xlarge :: InstanceTypeInfo where
  "m4_xlarge = \<lparr>VCPU = 4, MemoryMb = 16384, GPU = 0\<rparr>"

definition InstanceTypes_fixture :: "string \<rightharpoonup> InstanceTypeInfo" where
  "InstanceTypes_fixture = [''m4.xlarge'' \<mapsto> m4_xlarge]"

definition providerConfig_fixture :: "string \<Rightarrow> AWSMachineProviderConfig" where
  "providerConfig_fixture ty =
     \<lparr>AMI = \<lparr>Filters = []\<rparr>, CredentialsSecret = None, InstanceType = ty,
      Placement = \<lparr>Region = ''us-east-1'', AvailabilityZone = ''us-east-1a''\<rparr>,
      Subnet = \<lparr>Filters = []\<rparr>, Tags = [], SecurityGroups = [],
      PublicIP = Some True, UserDataSecret = None\<rparr>"

definition machineSet_fixture :: "Time option \<Rightarrow> (string \<rightharpoonup> string) option \<Rightarrow> MachineSet" where
  "machineSet_fixture del ann =
     \<lparr>Meta = \<lparr>Name = ''workers'', Namespace = ''openshift-machine-api'',
              ResourceVersion = ''1'', DeletionTimestamp = del, Annotations = ann\<rparr>,
      Spec_Template_Spec_ProviderSpec = \<lparr>Value = Some [123, 125]\<rparr>\<rparr>"

definition request_fixture :: Request where
  "request_fixture =
     \<lparr>NamespacedName = \<lparr>req_Namespace = ''openshift-machine-api'', req_Name = ''workers''\<rparr>\<rparr>"

text \<open>A client that holds one object and accepts every patch.\<close>

definition client_fixture :: "MachineSet \<Rightarrow> Client" where
  "client_fixture ms = \<lparr>Get = (\<lambda>k. Inr ms), Patch = (\<lambda>obj base. None)\<rparr>"

text \<open>A client whose fetch fails with the given error.\<close>

definition failing_client :: "error \<Rightarrow> Client" where
  "failing_client e = \<lparr>Get = (\<lambda>k. Inl e), Patch = (\<lambda>obj base. None)\<rparr>"

text \<open>A codec that decodes every payload to the configuration of one instance type.\<close>

definition decode_fixture :: "string \<Rightarrow> codec" where
  "decode_fixture ty spec = Inr (providerConfig_fixture ty)"

definition codec_fixture :: "string \<Rightarrow> error + codec" where
  "codec_fixture ty = Inr (decode_fixture ty)"

text \<open>
  Collaborators of the scope constructor that all succeed, and the parameters and
  scopes the examples use.
\<close>

definition scope_deps_fixture :: ScopeDeps where
  "scope_deps_fixture =
     \<lparr>NestedString = (\<lambda>obj fields. (''us-east-1'', True, None)),
      sessionForRegion = (\<lambda>region endpoints. Inr (Session 0)),
      NewHelper = (\<lambda>obj c. Inr \<lparr>beforeObject = obj\<rparr>)\<rparr>"

definition cluster_fixture :: "ClusterNetwork option \<Rightarrow> Cluster" where
  "cluster_fixture cn =
     \<lparr>Cluster_Name = ''guest'', Cluster_Namespace = ''default'', Cluster_UID = ''uid-1'',
      Spec = \<lparr>ClusterNetwork = cn\<rparr>\<rparr>"

definition guest_fixture :: Unstructured where
  "guest_fixture = \<lparr>Object = [(''spec'', UMap [(''region'', UString ''us-east-1'')])]\<rparr>"

definition params_fixture :: "Cluster option \<Rightarrow> Unstructured option \<Rightarrow> GuestClusterScopeParams" where
  "params_fixture c g =
     \<lparr>p_Client = Some (ClientHandle 0), p_Logger = None, p_Cluster = c, p_GuestCluster = g,
      p_ControllerName = ''guestcluster'', p_Endpoints = [], p_Session = None\<rparr>"

definition scope_fixture :: "Cluster option \<Rightarrow> GuestClusterScope" where
  "scope_fixture c =
     \<lparr>s_Logger = Klogr, s_client = Some (ClientHandle 0),
      s_patchHelper = Some \<lparr>beforeObject = guest_fixture\<rparr>,
      s_Cluster = c, s_GuestCluster = Some guest_fixture,
      s_session = Some (Session 0), s_controllerName = ''guestcluster''\<rparr>"

section \<open>Facts about the annotation step\<close>

lemmas fixture_defs =
  client_fixture_def failing_client_def codec_fixture_def decode_fixture_def machineSet_fixture_def
  request_fixture_def providerConfig_fixture_def InstanceTypes_fixture_def m4_xlarge_def

text \<open>Without the allocation, the first assignment panics on a nil map.\<close>

lemma write_Annotations_nil:
  "Annotations (Meta ms) = None \<Longrightarrow> write_Annotations it ms = Inl NilMapAssignment"
  by (simp add: write_Annotations_def map_store_def)

text \<open>After the allocation the three assignments succeed, with the closed form as result.\<close>

lemma write_Annotations_ensure:
  "write_Annotations it (ensure_Annotations ms) = Inr (annotated (FormatInt_10 (VCPU it)) ms)"
  by (cases "Annotations (Meta ms)")
     (simp_all add: write_Annotations_def ensure_Annotations_def map_store_def annotated_def)

lemma annotated_annotated: "annotated v (annotated v ms) = annotated v ms"
  by (simp add: annotated_def)

lemma annotated_frame:
  "Spec_Template_Spec_ProviderSpec (annotated v ms) = Spec_Template_Spec_ProviderSpec ms"
  "DeletionTimestamp (Meta (annotated v ms)) = DeletionTimestamp (Meta ms)"
  by (simp_all add: annotated_def)

lemma annotation_annotated:
  "k \<in> derived_keys \<Longrightarrow> annotation (annotated v ms) k = Some v"
  by (auto simp add: annotated_def annotation_def derived_keys_def)

lemma annotation_annotated_other:
  "k \<notin> derived_keys \<Longrightarrow> annotation (annotated v ms) k = annotation ms k"
  by (auto simp add: annotated_def annotation_def derived_keys_def split: option.splits)

text \<open>
  The run of \<open>Reconcile\<close> past the deletion check and a successful decode: one
  patch call, of the annotated object against the fetched one; the result is the
  answer of that call.
\<close>

lemma Reconcile_derive:
  assumes "Get r (NamespacedName req) = Inr ms"
    and "Time_IsZero (DeletionTimestamp (Meta ms))"
    and "NewCodec = Inr codec"
    and "codec (Spec_Template_Spec_ProviderSpec ms) = Inr providerConfig"
  shows "Reconcile r NewCodec InstanceTypes req =
     \<lparr>outcome = Return Result_zero
        (map_option (Errorf_v ''failed to patch machineSet: '')
          (Patch r (annotated (FormatInt_10
              (VCPU (map_index InstanceTypes (InstanceType providerConfig)))) ms) ms)),
      calls = [GetCall (NamespacedName req), NewCodecCall,
               DecodeProviderSpecCall (Spec_Template_Spec_ProviderSpec ms),
               PatchCall (annotated (FormatInt_10
                 (VCPU (map_index InstanceTypes (InstanceType providerConfig)))) ms) ms],
      machineSet = Some (annotated (FormatInt_10
        (VCPU (map_index InstanceTypes (InstanceType providerConfig)))) ms)\<rparr>"
  using assms
  by (simp add: Reconcile_def getproviderConfig_def write_Annotations_ensure Let_def
      split: option.splits)

lemma FormatInt_10_zero: "FormatInt_10 0 = ''0''"
  by (simp add: FormatInt_10_def FormatUint.simps)

text \<open>
  A scope the constructor returns holds the cluster it was given: its \<^verbatim>\<open>Cluster\<close>
  pointer is not nil. On the path past both nil checks the constructor does call the
  session factory.
\<close>

lemma NewGuestClusterScope_Cluster:
  "NewGuestClusterScope deps params = ((Some s, e), evs) \<Longrightarrow>
     s_Cluster s = p_Cluster params \<and> s_Cluster s \<noteq> None"
  by (auto simp add: NewGuestClusterScope_def Let_def
      split: option.splits prod.splits if_splits sum.splits)

lemma NewGuestClusterScope_fixture:
  "snd (NewGuestClusterScope scope_deps_fixture
      (params_fixture (Some (cluster_fixture None)) (Some guest_fixture)))
   = [SessionForRegionCall ''us-east-1'' [], NewHelperCall guest_fixture (Some (ClientHandle 0))]"
  by (simp add: NewGuestClusterScope_def scope_deps_fixture_def params_fixture_def)


section \<open>The claims\<close>

text \<open>
  C1. For the instance type \<^verbatim>\<open>m4.xlarge\<close> with the capability entry
  (vCPU 4, memory 16384, GPU 0) the claim expects the annotations vCPU "4",
  memoryMb "16384" and GPU "0", each from its own field. The reconciler formats the
  field \<^verbatim>\<open>VCPU\<close> in all three assignments: the run below patches an object whose
  three derived annotations are all "4".
\<close>

theorem Reconcile_m4_xlarge_annotations:
  "InstanceTypes_fixture ''m4.xlarge'' = Some \<lparr>VCPU = 4, MemoryMb = 16384, GPU = 0\<rparr>
   \<and> (\<exists>obj. patch_calls (calls (Reconcile (client_fixture (machineSet_fixture None None))
             (codec_fixture ''m4.xlarge'') InstanceTypes_fixture request_fixture))
           = [(obj, machineSet_fixture None None)]
     \<and> annotation obj ''machine.openshift.io/vCPU'' = Some ''4''
     \<and> annotation obj ''machine.openshift.io/memoryMb'' = Some ''4''
     \<and> annotation obj ''machine.openshift.io/GPU'' = Some ''4'')"
proof -
  let ?ms = "machineSet_fixture None None"
  have run: "Reconcile (client_fixture ?ms) (codec_fixture ''m4.xlarge'') InstanceTypes_fixture
        request_fixture =
      \<lparr>outcome = Return Result_zero None,
       calls = [GetCall (NamespacedName request_fixture), NewCodecCall,
                DecodeProviderSpecCall (Spec_Template_Spec_ProviderSpec ?ms),
                PatchCall (annotated ''4'' ?ms) ?ms],
       machineSet = Some (annotated ''4'' ?ms)\<rparr>"
    by (simp add: Reconcile_def getproviderConfig_def write_Annotations_ensure Let_def
        fixture_defs map_index_def FormatInt_10_def FormatUint.simps)
  have entry: "InstanceTypes_fixture ''m4.xlarge''
      = Some \<lparr>VCPU = 4, MemoryMb = 16384, GPU = 0\<rparr>"
    by (simp add: InstanceTypes_fixture_def m4_xlarge_def)
  have patched: "\<exists>obj. patch_calls (calls (Reconcile (client_fixture ?ms)
             (codec_fixture ''m4.xlarge'') InstanceTypes_fixture request_fixture))
           = [(obj, ?ms)]
     \<and> annotation obj ''machine.openshift.io/vCPU'' = Some ''4''
     \<and> annotation obj ''machine.openshift.io/memoryMb'' = Some ''4''
     \<and> annotation obj ''machine.openshift.io/GPU'' = Some ''4''"
    by (simp add: run annotation_annotated derived_keys_def)
  from entry patched show ?thesis
    by (rule conjI)
qed

text \<open>
  C3. The claim has \<open>Close\<close> compute a merge patch against the snapshot, apply it
  under a version precondition, and return a conflict error when the version has
  moved. \<open>Close\<close> returns what \<open>PatchObject\<close> returns, and \<open>PatchObject\<close>
  returns nil before anything else: for every scope, whatever its snapshot and its
  live object, \<open>Close\<close> makes no call at all and reports no error.
\<close>

theorem Close_makes_no_call: "Close s = (None, [])"
  by (simp add: Close_def PatchObject_def)

text \<open>
  C4. When the fetched object has its deletion timestamp set, \<open>Reconcile\<close> returns
  the empty result with no error right after the check: the fetch is its only call
  (no codec, no decode, no patch) and the object in memory is the fetched one.
\<close>

theorem Reconcile_deleting_is_terminal:
  assumes "Get r (NamespacedName req) = Inr ms"
    and "\<not> Time_IsZero (DeletionTimestamp (Meta ms))"
  shows "outcome (Reconcile r NewCodec InstanceTypes req) = Return Result_zero None
     \<and> calls (Reconcile r NewCodec InstanceTypes req) = [GetCall (NamespacedName req)]
     \<and> patch_calls (calls (Reconcile r NewCodec InstanceTypes req)) = []
     \<and> machineSet (Reconcile r NewCodec InstanceTypes req) = Some ms"
  using assms by (simp add: Reconcile_def)

theorem Reconcile_deleting_is_terminal_witness:
  "Get (client_fixture (machineSet_fixture (Some (Time 1)) None)) (NamespacedName request_fixture)
     = Inr (machineSet_fixture (Some (Time 1)) None)
   \<and> \<not> Time_IsZero (DeletionTimestamp (Meta (machineSet_fixture (Some (Time 1)) None)))
   \<and> outcome (Reconcile (client_fixture (machineSet_fixture (Some (Time 1)) None))
        (codec_fixture ''m4.xlarge'') InstanceTypes_fixture request_fixture)
      = Return Result_zero None
   \<and> patch_calls (calls (Reconcile (client_fixture (machineSet_fixture (Some (Time 1)) None))
        (codec_fixture ''m4.xlarge'') InstanceTypes_fixture request_fixture)) = []
   \<and> machineSet (Reconcile (client_fixture (machineSet_fixture (Some (Time 1)) None))
        (codec_fixture ''m4.xlarge'') InstanceTypes_fixture request_fixture)
      = Some (machineSet_fixture (Some (Time 1)) None)"
proof -
  let ?ms = "machineSet_fixture (Some (Time 1)) None"
  have g: "Get (client_fixture ?ms) (NamespacedName request_fixture) = Inr ?ms"
    by (simp add: client_fixture_def)
  have d: "\<not> Time_IsZero (DeletionTimestamp (Meta ?ms))"
    by (simp add: machineSet_fixture_def)
  show ?thesis
    using g d
      Reconcile_deleting_is_terminal
        [OF g d, of "codec_fixture ''m4.xlarge''" InstanceTypes_fixture]
    by simp
qed

text \<open>
  C5. When the fetch fails with a not-found error, \<open>Reconcile\<close> returns the empty
  result and no error; when it fails with any other error, it returns that very
  error (which is what makes the controller requeue the request). Neither run
  attempts a patch.
\<close>

theorem Reconcile_fetch_errors:
  assumes "Get r (NamespacedName req) = Inl err"
  shows "(IsNotFound err \<longrightarrow>
            outcome (Reconcile r NewCodec InstanceTypes req) = Return Result_zero None)
     \<and> (\<not> IsNotFound err \<longrightarrow>
            outcome (Reconcile r NewCodec InstanceTypes req) = Return Result_zero (Some err))
     \<and> patch_calls (calls (Reconcile r NewCodec InstanceTypes req)) = []"
  using assms by (simp add: Reconcile_def)

theorem Reconcile_fetch_errors_witness:
  "outcome (Reconcile (failing_client (StatusError StatusReasonNotFound ''not found''))
        (codec_fixture ''m4.xlarge'') InstanceTypes_fixture request_fixture)
      = Return \<lparr>Requeue = False, RequeueAfter = 0\<rparr> None
   \<and> patch_calls (calls (Reconcile (failing_client (StatusError StatusReasonNotFound ''not found''))
        (codec_fixture ''m4.xlarge'') InstanceTypes_fixture request_fixture)) = []
   \<and> outcome (Reconcile (failing_client (PlainError ''connection refused''))
        (codec_fixture ''m4.xlarge'') InstanceTypes_fixture request_fixture)
      = Return \<lparr>Requeue = False, RequeueAfter = 0\<rparr> (Some (PlainError ''connection refused''))
   \<and> patch_calls (calls (Reconcile (failing_client (PlainError ''connection refused''))
        (codec_fixture ''m4.xlarge'') InstanceTypes_fixture request_fixture)) = []"
proof -
  have g1: "Get (failing_client (StatusError StatusReasonNotFound ''not found''))
      (NamespacedName request_fixture) = Inl (StatusError StatusReasonNotFound ''not found'')"
    by (simp add: failing_client_def)
  have g2: "Get (failing_client (PlainError ''connection refused''))
      (NamespacedName request_fixture) = Inl (PlainError ''connection refused'')"
    by (simp add: failing_client_def)
  show ?thesis
    using Reconcile_fetch_errors [OF g1, of "codec_fixture ''m4.xlarge''" InstanceTypes_fixture]
      Reconcile_fetch_errors [OF g2, of "codec_fixture ''m4.xlarge''" InstanceTypes_fixture]
    by (simp add: Result_zero_def)
qed

text \<open>
  C6. When the cluster or the guest cluster of the parameters is nil, the constructor
  returns a nil scope and an error, and has made no call: the session factory is
  not invoked.
\<close>

theorem NewGuestClusterScope_nil_input:
  assumes "p_Cluster params = None \<or> p_GuestCluster params = None"
  shows "\<exists>e. NewGuestClusterScope deps params = ((None, Some e), [])"
  using assms by (auto simp add: NewGuestClusterScope_def split: option.splits)

theorem NewGuestClusterScope_nil_input_witness:
  "p_Cluster (params_fixture None (Some guest_fixture)) = None
   \<and> (\<exists>e. NewGuestClusterScope scope_deps_fixture (params_fixture None (Some guest_fixture))
            = ((None, Some e), []))
   \<and> p_GuestCluster (params_fixture (Some (cluster_fixture None)) None) = None
   \<and> (\<exists>e. NewGuestClusterScope scope_deps_fixture
              (params_fixture (Some (cluster_fixture None)) None)
            = ((None, Some e), []))"
proof -
  have h1: "p_Cluster (params_fixture None (Some guest_fixture)) = None
      \<or> p_GuestCluster (params_fixture None (Some guest_fixture)) = None"
    by (simp add: params_fixture_def)
  have h2: "p_Cluster (params_fixture (Some (cluster_fixture None)) None) = None
      \<or> p_GuestCluster (params_fixture (Some (cluster_fixture None)) None) = None"
    by (simp add: params_fixture_def)
  show ?thesis
    using NewGuestClusterScope_nil_input [OF h1, of scope_deps_fixture]
      NewGuestClusterScope_nil_input [OF h2, of scope_deps_fixture]
    by (simp add: params_fixture_def)
qed

text \<open>
  C7. When the decoded instance type has no entry in the table, the lookup gives the
  zero descriptor and no error: the run goes on to patch the object with the three
  derived annotations set to "0", and its result is the answer of the patch call.
\<close>

theorem Reconcile_unknown_instance_type:
  assumes "Get r (NamespacedName req) = Inr ms"
    and "Time_IsZero (DeletionTimestamp (Meta ms))"
    and "NewCodec = Inr codec"
    and "codec (Spec_Template_Spec_ProviderSpec ms) = Inr providerConfig"
    and "InstanceTypes (InstanceType providerConfig) = None"
  shows "map_index InstanceTypes (InstanceType providerConfig)
           = \<lparr>VCPU = 0, MemoryMb = 0, GPU = 0\<rparr>
     \<and> (\<exists>obj. patch_calls (calls (Reconcile r NewCodec InstanceTypes req)) = [(obj, ms)]
           \<and> (\<forall>k \<in> derived_keys. annotation obj k = Some ''0'')
           \<and> outcome (Reconcile r NewCodec InstanceTypes req)
               = Return Result_zero
                   (map_option (Errorf_v ''failed to patch machineSet: '') (Patch r obj ms)))"
proof -
  have z: "map_index InstanceTypes (InstanceType providerConfig) = InstanceTypeInfo_zero"
    using assms(5) by (simp add: map_index_def)
  have v: "FormatInt_10 (VCPU (map_index InstanceTypes (InstanceType providerConfig))) = ''0''"
    by (simp add: z InstanceTypeInfo_zero_def FormatInt_10_zero)
  have run: "Reconcile r NewCodec InstanceTypes req =
     \<lparr>outcome = Return Result_zero
        (map_option (Errorf_v ''failed to patch machineSet: '')
          (Patch r (annotated ''0'' ms) ms)),
      calls = [GetCall (NamespacedName req), NewCodecCall,
               DecodeProviderSpecCall (Spec_Template_Spec_ProviderSpec ms),
               PatchCall (annotated ''0'' ms) ms],
      machineSet = Some (annotated ''0'' ms)\<rparr>"
    using Reconcile_derive [OF assms(1-4), of InstanceTypes] by (simp only: v)
  have p: "patch_calls (calls (Reconcile r NewCodec InstanceTypes req)) = [(annotated ''0'' ms, ms)]"
    by (simp add: run)
  have a: "\<forall>k \<in> derived_keys. annotation (annotated ''0'' ms) k = Some ''0''"
    by (simp add: annotation_annotated)
  have out: "outcome (Reconcile r NewCodec InstanceTypes req)
               = Return Result_zero
                   (map_option (Errorf_v ''failed to patch machineSet: '') (Patch r (annotated ''0'' ms) ms))"
    by (simp add: run)
  from z p a out show ?thesis
    by (simp add: InstanceTypeInfo_zero_def)
qed

theorem Reconcile_unknown_instance_type_witness:
  "InstanceTypes_fixture ''t9.unknown'' = None
   \<and> map_index InstanceTypes_fixture ''t9.unknown'' = \<lparr>VCPU = 0, MemoryMb = 0, GPU = 0\<rparr>
   \<and> (\<exists>obj. patch_calls (calls (Reconcile (client_fixture (machineSet_fixture None None))
               (codec_fixture ''t9.unknown'') InstanceTypes_fixture request_fixture))
             = [(obj, machineSet_fixture None None)]
         \<and> annotation obj ''machine.openshift.io/vCPU'' = Some ''0''
         \<and> annotation obj ''machine.openshift.io/memoryMb'' = Some ''0''
         \<and> annotation obj ''machine.openshift.io/GPU'' = Some ''0'')
   \<and> outcome (Reconcile (client_fixture (machineSet_fixture None None))
               (codec_fixture ''t9.unknown'') InstanceTypes_fixture request_fixture)
       = Return Result_zero None"
proof -
  let ?ms = "machineSet_fixture None None"
  have g: "Get (client_fixture ?ms) (NamespacedName request_fixture) = Inr ?ms"
    by (simp add: client_fixture_def)
  have d: "Time_IsZero (DeletionTimestamp (Meta ?ms))"
    by (simp add: machineSet_fixture_def)
  have c: "codec_fixture ''t9.unknown'' = Inr (decode_fixture ''t9.unknown'')"
    by (simp add: codec_fixture_def)
  have e: "decode_fixture ''t9.unknown'' (Spec_Template_Spec_ProviderSpec ?ms)
      = Inr (providerConfig_fixture ''t9.unknown'')"
    by (simp add: decode_fixture_def)
  have u: "InstanceTypes_fixture (InstanceType (providerConfig_fixture ''t9.unknown'')) = None"
    by (simp add: InstanceTypes_fixture_def providerConfig_fixture_def)
  have k: "InstanceType (providerConfig_fixture ''t9.unknown'') = ''t9.unknown''"
    by (simp add: providerConfig_fixture_def)
  have p: "Patch (client_fixture ?ms) obj ?ms = None" for obj
    by (simp add: client_fixture_def)
  show ?thesis
    using Reconcile_unknown_instance_type
        [where InstanceTypes = InstanceTypes_fixture and codec = "decode_fixture ''t9.unknown''",
         OF g d c e u] k u
    by (auto simp add: k p derived_keys_def)
qed

text \<open>
  C8. Past the deletion check and the decode, the object a run patches depends on
  the fetched object alone: a second run that fetches the same object patches the
  same object \<open>ms'\<close>, and a run that fetches \<open>ms'\<close> itself (the object that
  already carries the derived annotations) patches \<open>ms'\<close> against the base
  \<open>ms'\<close>: modified object and base are equal, so the patch has nothing to change.
\<close>

theorem Reconcile_idempotent:
  assumes "Get r (NamespacedName req) = Inr ms"
    and "Time_IsZero (DeletionTimestamp (Meta ms))"
    and "NewCodec = Inr codec"
    and "codec (Spec_Template_Spec_ProviderSpec ms) = Inr providerConfig"
  shows "\<exists>ms'. patch_calls (calls (Reconcile r NewCodec InstanceTypes req)) = [(ms', ms)]
     \<and> (\<forall>r2. Get r2 (NamespacedName req) = Inr ms \<longrightarrow>
           patch_calls (calls (Reconcile r2 NewCodec InstanceTypes req)) = [(ms', ms)])
     \<and> (\<forall>r2. Get r2 (NamespacedName req) = Inr ms' \<longrightarrow>
           patch_calls (calls (Reconcile r2 NewCodec InstanceTypes req)) = [(ms', ms')])"
proof -
  let ?v = "FormatInt_10 (VCPU (map_index InstanceTypes (InstanceType providerConfig)))"
  let ?ms' = "annotated ?v ms"
  have first: "patch_calls (calls (Reconcile r NewCodec InstanceTypes req)) = [(?ms', ms)]"
    using Reconcile_derive [OF assms, of InstanceTypes] by simp
  have same: "patch_calls (calls (Reconcile r2 NewCodec InstanceTypes req)) = [(?ms', ms)]"
    if "Get r2 (NamespacedName req) = Inr ms" for r2
    using Reconcile_derive [OF that assms(2-4), of InstanceTypes] by simp
  have again: "patch_calls (calls (Reconcile r2 NewCodec InstanceTypes req)) = [(?ms', ?ms')]"
    if g: "Get r2 (NamespacedName req) = Inr ?ms'" for r2
  proof -
    have d: "Time_IsZero (DeletionTimestamp (Meta ?ms'))"
      using assms(2) by (simp add: annotated_frame)
    have c: "codec (Spec_Template_Spec_ProviderSpec ?ms') = Inr providerConfig"
      using assms(4) by (simp add: annotated_frame)
    show ?thesis
      using Reconcile_derive [OF g d assms(3) c, of InstanceTypes]
      by (simp add: annotated_annotated)
  qed
  from first same again show ?thesis by blast
qed

theorem Reconcile_idempotent_witness:
  "\<exists>ms'. patch_calls (calls (Reconcile (client_fixture (machineSet_fixture None None))
              (codec_fixture ''m4.xlarge'') InstanceTypes_fixture request_fixture))
            = [(ms', machineSet_fixture None None)]
     \<and> patch_calls (calls (Reconcile (client_fixture ms')
              (codec_fixture ''m4.xlarge'') InstanceTypes_fixture request_fixture))
            = [(ms', ms')]"
proof -
  let ?ms = "machineSet_fixture None None"
  have g: "Get (client_fixture ?ms) (NamespacedName request_fixture) = Inr ?ms"
    by (simp add: client_fixture_def)
  have d: "Time_IsZero (DeletionTimestamp (Meta ?ms))"
    by (simp add: machineSet_fixture_def)
  have c: "codec_fixture ''m4.xlarge'' = Inr (decode_fixture ''m4.xlarge'')"
    by (simp add: codec_fixture_def)
  have e: "decode_fixture ''m4.xlarge'' (Spec_Template_Spec_ProviderSpec ?ms)
      = Inr (providerConfig_fixture ''m4.xlarge'')"
    by (simp add: decode_fixture_def)
  have g2: "Get (client_fixture m) (NamespacedName request_fixture) = Inr m" for m
    by (simp add: client_fixture_def)
  show ?thesis
    using Reconcile_idempotent
        [where InstanceTypes = InstanceTypes_fixture and codec = "decode_fixture ''m4.xlarge''",
         OF g d c e] g2
    by blast
qed

text \<open>
  C9. When the fetched object has a nil annotation map, no run panics: the map is
  allocated before the three assignments (which would panic on a nil map, see
  \<open>write_Annotations_nil\<close>), and every object handed to a patch call has an
  annotation map, whose keys are the three derived ones.
\<close>

theorem Reconcile_allocates_annotations:
  assumes "Get r (NamespacedName req) = Inr ms"
    and "Annotations (Meta ms) = None"
  shows "(\<forall>p. outcome (Reconcile r NewCodec InstanceTypes req) \<noteq> Panicked p)
     \<and> (\<forall>obj base. (obj, base) \<in> set (patch_calls (calls (Reconcile r NewCodec InstanceTypes req)))
           \<longrightarrow> (\<exists>f. Annotations (Meta obj) = Some f \<and> dom f = derived_keys))"
proof (cases "Time_IsZero (DeletionTimestamp (Meta ms))")
  case False
  then show ?thesis using assms(1) by (simp add: Reconcile_def)
next
  case True
  note z = this
  show ?thesis
  proof (cases NewCodec)
    case (Inl e)
    then show ?thesis using assms(1) z
      by (simp add: Reconcile_def getproviderConfig_def)
  next
    case (Inr codec)
    note nc = this
    show ?thesis
    proof (cases "codec (Spec_Template_Spec_ProviderSpec ms)")
      case (Inl e)
      then show ?thesis using assms(1) z nc
        by (simp add: Reconcile_def getproviderConfig_def)
    next
      case (Inr providerConfig)
      have dom: "\<exists>f. Annotations (Meta (annotated v ms)) = Some f \<and> dom f = derived_keys" for v
        using assms(2) by (auto simp add: annotated_def derived_keys_def)
      show ?thesis
        using Reconcile_derive [OF assms(1) z nc Inr, of InstanceTypes] dom
        by simp
    qed
  qed
qed

theorem Reconcile_allocates_annotations_witness:
  "Annotations (Meta (machineSet_fixture None None)) = None
   \<and> outcome (Reconcile (client_fixture (machineSet_fixture None None))
               (codec_fixture ''m4.xlarge'') InstanceTypes_fixture request_fixture)
       = Return Result_zero None
   \<and> (\<exists>obj f. patch_calls (calls (Reconcile (client_fixture (machineSet_fixture None None))
               (codec_fixture ''m4.xlarge'') InstanceTypes_fixture request_fixture))
             = [(obj, machineSet_fixture None None)]
         \<and> Annotations (Meta obj) = Some f \<and> dom f = derived_keys)"
proof -
  let ?ms = "machineSet_fixture None None"
  let ?R = "Reconcile (client_fixture ?ms) (codec_fixture ''m4.xlarge'') InstanceTypes_fixture
        request_fixture"
  have g: "Get (client_fixture ?ms) (NamespacedName request_fixture) = Inr ?ms"
    by (simp add: client_fixture_def)
  have n: "Annotations (Meta ?ms) = None"
    by (simp add: machineSet_fixture_def)
  have run: "?R =
      \<lparr>outcome = Return Result_zero None,
       calls = [GetCall (NamespacedName request_fixture), NewCodecCall,
                DecodeProviderSpecCall (Spec_Template_Spec_ProviderSpec ?ms),
                PatchCall (annotated ''4'' ?ms) ?ms],
       machineSet = Some (annotated ''4'' ?ms)\<rparr>"
    by (simp add: Reconcile_def getproviderConfig_def write_Annotations_ensure Let_def
        fixture_defs map_index_def FormatInt_10_def FormatUint.simps)
  have pc: "patch_calls (calls ?R) = [(annotated ''4'' ?ms, ?ms)]"
    by (simp add: run)
  have o: "outcome ?R = Return Result_zero None"
    by (simp add: run)
  have "\<exists>f. Annotations (Meta (annotated ''4'' ?ms)) = Some f \<and> dom f = derived_keys"
    using Reconcile_allocates_annotations
      [OF g n, of "codec_fixture ''m4.xlarge''" InstanceTypes_fixture]
    by (simp add: pc)
  with n o pc show ?thesis by simp
qed

text \<open>
  C10. On a scope that holds its cluster (as every scope of the constructor does, by
  \<open>NewGuestClusterScope_Cluster\<close>), \<^verbatim>\<open>APIServerPort\<close> returns the port the cluster
  network points to when both pointers are set, and 6443 when the cluster network
  or its port is nil. It always returns a value: it does not panic.
\<close>

theorem APIServerPort_value:
  assumes "s_Cluster s = Some cluster"
  shows "(\<forall>cn port. ClusterNetwork (Spec cluster) = Some cn \<and> APIServerPort cn = Some port
            \<longrightarrow> GuestClusterScope_APIServerPort s = Inr port)
     \<and> (ClusterNetwork (Spec cluster) = None
            \<longrightarrow> GuestClusterScope_APIServerPort s = Inr 6443)
     \<and> (\<forall>cn. ClusterNetwork (Spec cluster) = Some cn \<and> APIServerPort cn = None
            \<longrightarrow> GuestClusterScope_APIServerPort s = Inr 6443)
     \<and> (\<exists>port. GuestClusterScope_APIServerPort s = Inr port)"
  using assms by (auto simp add: GuestClusterScope_APIServerPort_def split: option.splits)

theorem APIServerPort_value_witness:
  "s_Cluster (scope_fixture (Some (cluster_fixture (Some \<lparr>APIServerPort = Some 8443\<rparr>))))
     = Some (cluster_fixture (Some \<lparr>APIServerPort = Some 8443\<rparr>))
   \<and> GuestClusterScope_APIServerPort
       (scope_fixture (Some (cluster_fixture (Some \<lparr>APIServerPort = Some 8443\<rparr>)))) = Inr 8443
   \<and> GuestClusterScope_APIServerPort
       (scope_fixture (Some (cluster_fixture (Some \<lparr>APIServerPort = None\<rparr>)))) = Inr 6443
   \<and> GuestClusterScope_APIServerPort (scope_fixture (Some (cluster_fixture None))) = Inr 6443"
proof -
  have c1: "s_Cluster (scope_fixture (Some (cluster_fixture (Some \<lparr>APIServerPort = Some 8443\<rparr>))))
     = Some (cluster_fixture (Some \<lparr>APIServerPort = Some 8443\<rparr>))"
    by (simp add: scope_fixture_def)
  have c2: "s_Cluster (scope_fixture (Some (cluster_fixture (Some \<lparr>APIServerPort = None\<rparr>))))
     = Some (cluster_fixture (Some \<lparr>APIServerPort = None\<rparr>))"
    by (simp add: scope_fixture_def)
  have c3: "s_Cluster (scope_fixture (Some (cluster_fixture None))) = Some (cluster_fixture None)"
    by (simp add: scope_fixture_def)
  show ?thesis
    using c1 APIServerPort_value [OF c1] APIServerPort_value [OF c2] APIServerPort_value [OF c3]
    by (simp add: cluster_fixture_def)
qed

end
